theory Spec2Isabelle
  imports Complex_Main
begin

section \<open>The AGMD physics kernel (src/dessal/physics.c)\<close>

text \<open>
  The C functions of \<^verbatim>\<open>physics.c\<close> compute with \<^verbatim>\<open>PetscReal\<close> (a C double).
  They are embedded over the ideal reals: \<^verbatim>\<open>+ - * /\<close> are the field operations of
  \<^typ>\<open>real\<close>, \<^verbatim>\<open>PetscPowReal\<close> is \<open>powr\<close>, \<^verbatim>\<open>PetscSqrtReal\<close> is \<open>sqrt\<close> and
  \<^verbatim>\<open>PetscExpReal\<close> is \<open>exp\<close>. Rounding, overflow, infinities and not-a-number
  values are outside this model. In HOL a division by zero is 0 and \<open>powr\<close> is defined
  on negative bases, where the C operations leave the finite doubles; the theorems about
  limits, signs and monotonicity below assume the positive inputs on which the two
  agree up to rounding. \<^verbatim>\<open>PetscInt\<close> is \<^typ>\<open>int\<close>.
\<close>

subsection \<open>Property snapshots and the memory they live in\<close>

text \<open>
  The struct declarations are in \<^verbatim>\<open>properties.h\<close>; the fields are the ones
  \<^verbatim>\<open>physics.c\<close> reads through its pointer arguments.
\<close>

record SaltWaterProperties =
  dyn_viscosity :: real
  thermal_conductivity :: real
  prandtl :: real
  mass_diffusivity :: real
  schmidt :: real

record MoistAirProperties =
  thermal_conductivity :: real

text \<open>
  The functions receive the snapshots by pointer. A pointer is an address, and the
  memory maps an address to the struct stored there, one typed heap per struct type.
  A function that takes a pointer takes the memory and returns it with its result, so
  that a store through the pointer would show in the returned memory.
\<close>

type_synonym addr = nat

record memory =
  salt_water_heap :: "addr \<Rightarrow> SaltWaterProperties"
  moist_air_heap :: "addr \<Rightarrow> MoistAirProperties"

subsection \<open>Named constants\<close>

text \<open>
  \<^verbatim>\<open>gas_constant\<close>, \<^verbatim>\<open>water_molar_mass\<close> and \<^verbatim>\<open>atm_pressure\<close> come from the
  included headers. Their values are a parameter of the functions that use them.
\<close>

record constants =
  gas_constant :: real
  water_molar_mass :: real
  atm_pressure :: real

text \<open>\<^verbatim>\<open>M_PI\<close> is the macro of \<^verbatim>\<open>math.h\<close>.\<close>

definition M_PI :: real where
  "M_PI = 3.14159265358979323846"

subsection \<open>Maxwell's model and the channel correlations\<close>

definition MembraneConductivity :: "memory \<Rightarrow> addr \<Rightarrow> real \<Rightarrow> real \<Rightarrow> real \<times> memory" where
  "MembraneConductivity mem pore_air_prop polymer_conductivity membrane_porosity =
    (let air_conductivity = MoistAirProperties.thermal_conductivity (moist_air_heap mem pore_air_prop);
         beta = (polymer_conductivity - air_conductivity) / (polymer_conductivity + 2 * air_conductivity)
     in (0.93 * air_conductivity * (1 + 2 * beta * (1 - membrane_porosity))
           / (1 - beta * (1 - membrane_porosity)),
         mem))"

definition ChannelHeatTransfCoef ::
  "memory \<Rightarrow> addr \<Rightarrow> addr \<Rightarrow> real \<Rightarrow> real \<Rightarrow> real \<Rightarrow> int \<Rightarrow> real \<Rightarrow> real \<times> memory" where
  "ChannelHeatTransfCoef mem bulk_water_prop wall_water_prop mass_flow_rate channel_height
       channel_width number_channels spacer_porosity =
    (let dyn_viscosity = SaltWaterProperties.dyn_viscosity (salt_water_heap mem bulk_water_prop);
         thermal_conductivity = SaltWaterProperties.thermal_conductivity (salt_water_heap mem bulk_water_prop);
         prandtl = SaltWaterProperties.prandtl (salt_water_heap mem bulk_water_prop);
         wall_prandtl = SaltWaterProperties.prandtl (salt_water_heap mem wall_water_prop);
         mass_velocity = mass_flow_rate
            / (real_of_int number_channels * channel_height * channel_width * spacer_porosity);
         reynolds = mass_velocity * channel_height / dyn_viscosity;
         nusselt = 0.22 * (reynolds powr 0.69) * (prandtl powr 0.13);
         nusselt = nusselt * ((prandtl / wall_prandtl) powr 0.25)
     in (thermal_conductivity * nusselt / channel_height, mem))"

definition ChannelMassTransfCoef ::
  "memory \<Rightarrow> addr \<Rightarrow> addr \<Rightarrow> real \<Rightarrow> real \<Rightarrow> real \<Rightarrow> int \<Rightarrow> real \<Rightarrow> real \<times> memory" where
  "ChannelMassTransfCoef mem bulk_water_prop wall_water_prop mass_flow_rate channel_height
       channel_width number_channels spacer_porosity =
    (let dyn_viscosity = SaltWaterProperties.dyn_viscosity (salt_water_heap mem bulk_water_prop);
         mass_diffusivity = SaltWaterProperties.mass_diffusivity (salt_water_heap mem bulk_water_prop);
         schmidt = SaltWaterProperties.schmidt (salt_water_heap mem bulk_water_prop);
         wall_schmidt = SaltWaterProperties.schmidt (salt_water_heap mem wall_water_prop);
         mass_velocity = mass_flow_rate
            / (real_of_int number_channels * channel_height * channel_width * spacer_porosity);
         reynolds = mass_velocity * channel_height / dyn_viscosity;
         sherwood = 0.22 * (reynolds powr 0.69) * (schmidt powr 0.13);
         sherwood = sherwood * ((schmidt / wall_schmidt) powr 0.25)
     in (mass_diffusivity * sherwood / channel_height, mem))"

subsection \<open>Diffusivities, concentration polarisation and the mass flux\<close>

definition MolecularDiffusion :: "real \<Rightarrow> real \<Rightarrow> real \<Rightarrow> real" where
  "MolecularDiffusion membrane_porosity membrane_tortuosity temperature =
    (let molecular_diffusivity = 4.46 / 10 ^ 6 * membrane_porosity / membrane_tortuosity;
         molecular_diffusivity = molecular_diffusivity * (temperature powr 2.334)
     in molecular_diffusivity)"

definition KnudsenDiffusion :: "constants \<Rightarrow> real \<Rightarrow> real \<Rightarrow> real \<Rightarrow> real \<Rightarrow> real" where
  "KnudsenDiffusion c membrane_porosity membrane_tortuosity pore_diameter temperature =
    (let knudsen_diffusivity = pore_diameter / 3;
         knudsen_diffusivity = knudsen_diffusivity * (membrane_porosity / membrane_tortuosity);
         knudsen_diffusivity = knudsen_diffusivity
            * sqrt (8 * gas_constant c * temperature / (M_PI * water_molar_mass c))
     in knudsen_diffusivity)"

text \<open>
  \<^verbatim>\<open>SaltWaterDensity\<close> is declared in \<^verbatim>\<open>properties.h\<close> and defined outside
  \<^verbatim>\<open>physics.c\<close>; it is the first parameter of its caller here.
\<close>

definition SaltWaterConcentration ::
  "(real \<Rightarrow> real \<Rightarrow> real) \<Rightarrow> real \<Rightarrow> real \<Rightarrow> real \<Rightarrow> real \<Rightarrow> real" where
  "SaltWaterConcentration SaltWaterDensity mass_transfer_coef temperature salinity mass_flux =
    (let density = SaltWaterDensity temperature 0;
         density_NaCl = 2160;
         molar_mass_NaCl = 58.44 / 10 ^ 3;
         molarity = (1 / molar_mass_NaCl) * salinity
            / ((1 - salinity) / density + salinity / density_NaCl);
         molarity = molarity / 1000;
         concentration = molarity * exp (mass_flux / (density * mass_transfer_coef));
         converted_concentration = 1000 * molar_mass_NaCl * density_NaCl * concentration
            / (density * density_NaCl + molar_mass_NaCl * concentration * (density_NaCl - density))
     in converted_concentration)"

definition MassFlux ::
  "constants \<Rightarrow> real \<Rightarrow> real \<Rightarrow> real \<Rightarrow> real \<Rightarrow> real \<Rightarrow> real \<Rightarrow> real \<Rightarrow> real \<Rightarrow> real \<Rightarrow> real \<Rightarrow> real \<Rightarrow> real" where
  "MassFlux c membrane_porosity membrane_tortuosity membrane_thickness pore_diameter
       gap_spacer_porosity air_gap_thickness temperature_membrane temperature_gap
       feed_membrane_pressure film_boundary_pressure vacuum_pressure =
    (let temperature_membrane = temperature_membrane + 273.15;
         temperature_gap = temperature_gap + 273.15;
         molecular_diffusivity =
           MolecularDiffusion membrane_porosity membrane_tortuosity temperature_membrane;
         knudsen_diffusivity =
           KnudsenDiffusion c membrane_porosity membrane_tortuosity pore_diameter temperature_membrane;
         effective_diffusivity = molecular_diffusivity * knudsen_diffusivity
            / (molecular_diffusivity + (atm_pressure c + vacuum_pressure) * knudsen_diffusivity);
         membrane_permeability = water_molar_mass c * effective_diffusivity
            / (gas_constant c * temperature_membrane * membrane_thickness);
         molecular_diffusivity = MolecularDiffusion 1 1 temperature_gap;
         gap_permeability = water_molar_mass c * molecular_diffusivity
            / (gas_constant c * temperature_gap * (atm_pressure c + vacuum_pressure) * air_gap_thickness);
         permeability = membrane_permeability * gap_permeability
            / (membrane_permeability + gap_permeability);
         mass_flux = permeability * (feed_membrane_pressure - film_boundary_pressure)
     in mass_flux)"

subsection \<open>The mass flux as the specification words it\<close>

text \<open>
  The specification describes the flux by named quantities. They are defined here from
  its sentences, to be compared with \<open>MassFlux\<close>. The effective diffusivity is the
  specification's parallel-resistance law, with the total pressure multiplying the
  Knudsen term.
\<close>

definition spec_D_eff :: "constants \<Rightarrow> real \<Rightarrow> real \<Rightarrow> real \<Rightarrow> real" where
  "spec_D_eff c D_mol D_kn P_vacuum = D_mol * D_kn / (D_mol + (atm_pressure c + P_vacuum) * D_kn)"

definition spec_k_membrane :: "constants \<Rightarrow> real \<Rightarrow> real \<Rightarrow> real \<Rightarrow> real" where
  "spec_k_membrane c D_eff T_membrane membrane_thickness =
     water_molar_mass c * D_eff / (gas_constant c * T_membrane * membrane_thickness)"

text \<open>
  The air-gap quotient as the sentence gives it: the molecular diffusivity at porosity
  and tortuosity 1 and the gap temperature, over
  \<open>R * T_gap * (P_atm + P_vacuum) * air_gap_thickness\<close>.
\<close>

definition spec_k_gap :: "constants \<Rightarrow> real \<Rightarrow> real \<Rightarrow> real \<Rightarrow> real" where
  "spec_k_gap c T_gap P_vacuum air_gap_thickness =
     MolecularDiffusion 1 1 T_gap
       / (gas_constant c * T_gap * (atm_pressure c + P_vacuum) * air_gap_thickness)"

definition spec_k_overall :: "real \<Rightarrow> real \<Rightarrow> real" where
  "spec_k_overall k_membrane k_gap = k_membrane * k_gap / (k_membrane + k_gap)"

text \<open>
  The flux for a given air-gap permeability \<open>k_gap\<close> and the membrane temperature in
  Kelvin.
\<close>

definition spec_mass_flux ::
  "constants \<Rightarrow> real \<Rightarrow> real \<Rightarrow> real \<Rightarrow> real \<Rightarrow> real \<Rightarrow> real \<Rightarrow> real \<Rightarrow> real \<Rightarrow> real \<Rightarrow> real" where
  "spec_mass_flux c k_gap membrane_porosity membrane_tortuosity membrane_thickness pore_diameter
       T_membrane feed_membrane_pressure film_boundary_pressure P_vacuum =
    (let D_eff = spec_D_eff c (MolecularDiffusion membrane_porosity membrane_tortuosity T_membrane)
                   (KnudsenDiffusion c membrane_porosity membrane_tortuosity pore_diameter T_membrane)
                   P_vacuum;
         k_membrane = spec_k_membrane c D_eff T_membrane membrane_thickness
     in spec_k_overall k_membrane k_gap * (feed_membrane_pressure - film_boundary_pressure))"

subsection \<open>Concrete inputs\<close>

text \<open>
  The constants in SI units, and two memories: in both, address 0 holds the same bulk
  brine snapshot; address 1 holds a wall snapshot, and the two wall snapshots agree on
  the Prandtl and Schmidt numbers only.
\<close>

definition SI_constants :: constants where
  "SI_constants = \<lparr>gas_constant = 8.314, water_molar_mass = 0.018015, atm_pressure = 101325\<rparr>"

definition bulk_example :: SaltWaterProperties where
  "bulk_example = \<lparr>dyn_viscosity = 0.0005, SaltWaterProperties.thermal_conductivity = 0.65,
      prandtl = 3, mass_diffusivity = 1.5 / 10 ^ 9, schmidt = 300\<rparr>"

definition wall_example :: SaltWaterProperties where
  "wall_example = \<lparr>dyn_viscosity = 0.0006, SaltWaterProperties.thermal_conductivity = 0.64,
      prandtl = 3.5, mass_diffusivity = 1.4 / 10 ^ 9, schmidt = 350\<rparr>"

definition wall_example' :: SaltWaterProperties where
  "wall_example' = \<lparr>dyn_viscosity = 0.0009, SaltWaterProperties.thermal_conductivity = 0.6,
      prandtl = 3.5, mass_diffusivity = 1.1 / 10 ^ 9, schmidt = 350\<rparr>"

definition example_memory :: "SaltWaterProperties \<Rightarrow> memory" where
  "example_memory wall =
     \<lparr>salt_water_heap = (\<lambda>a. bulk_example)(1 := wall),
      moist_air_heap = (\<lambda>a. \<lparr>MoistAirProperties.thermal_conductivity = 0.028\<rparr>)\<rparr>"

section \<open>Properties\<close>

subsection \<open>Membrane conductivity\<close>

lemma maxwell_dense_limit:
  fixes a p k :: real
  assumes a: "0 < a" and p: "0 < p"
  shows "k * a * (1 + 2 * ((p - a) / (p + 2 * a))) / (1 - (p - a) / (p + 2 * a)) = k * p"
proof -
  define s where "s = p + 2 * a"
  have s: "s \<noteq> 0" using a p by (simp add: s_def)
  have n: "1 + 2 * ((p - a) / s) = 3 * p / s"
    using s by (simp add: field_simps s_def)
  have d: "1 - (p - a) / s = 3 * a / s"
    using s by (simp add: field_simps s_def)
  have "k * a * (3 * p / s) / (3 * a / s) = k * p"
    using s a by (simp add: field_simps)
  then show ?thesis
    unfolding s_def [symmetric] n d .
qed

text \<open>
  C4. For positive air and polymer conductivities, \<open>MembraneConductivity\<close> at
  porosity 1 returns 0.93 times the air conductivity, and at porosity 0 it returns
  0.93 times the polymer conductivity: the factor 0.93 is applied in both limits.
\<close>

theorem MembraneConductivity_limits:
  assumes "0 < MoistAirProperties.thermal_conductivity (moist_air_heap mem pore_air_prop)"
      and "0 < polymer_conductivity"
  shows "fst (MembraneConductivity mem pore_air_prop polymer_conductivity 1)
           = 0.93 * MoistAirProperties.thermal_conductivity (moist_air_heap mem pore_air_prop)
       \<and> fst (MembraneConductivity mem pore_air_prop polymer_conductivity 0)
           = 0.93 * polymer_conductivity"
proof
  show "fst (MembraneConductivity mem pore_air_prop polymer_conductivity 1)
           = 0.93 * MoistAirProperties.thermal_conductivity (moist_air_heap mem pore_air_prop)"
    by (simp add: MembraneConductivity_def Let_def)
next
  have "fst (MembraneConductivity mem pore_air_prop polymer_conductivity 0)
      = 0.93 * MoistAirProperties.thermal_conductivity (moist_air_heap mem pore_air_prop)
          * (1 + 2 * ((polymer_conductivity
                - MoistAirProperties.thermal_conductivity (moist_air_heap mem pore_air_prop))
              / (polymer_conductivity
                + 2 * MoistAirProperties.thermal_conductivity (moist_air_heap mem pore_air_prop))))
          / (1 - (polymer_conductivity
                - MoistAirProperties.thermal_conductivity (moist_air_heap mem pore_air_prop))
              / (polymer_conductivity
                + 2 * MoistAirProperties.thermal_conductivity (moist_air_heap mem pore_air_prop)))"
    by (simp add: MembraneConductivity_def Let_def)
  also have "\<dots> = 0.93 * polymer_conductivity"
    by (rule maxwell_dense_limit [OF assms])
  finally show "fst (MembraneConductivity mem pore_air_prop polymer_conductivity 0)
           = 0.93 * polymer_conductivity" .
qed

text \<open>
  At air conductivity 0.028 and polymer conductivity 0.2: the two limits are
  \<open>0.93 * 0.028\<close> and \<open>0.93 * 0.2\<close>.
\<close>

theorem MembraneConductivity_limits_witness:
  "0 < MoistAirProperties.thermal_conductivity (moist_air_heap (example_memory wall_example) 0)
   \<and> (0::real) < 0.2
   \<and> fst (MembraneConductivity (example_memory wall_example) 0 0.2 1) = 0.93 * 0.028
   \<and> fst (MembraneConductivity (example_memory wall_example) 0 0.2 0) = 0.93 * 0.2"
  using MembraneConductivity_limits [of "example_memory wall_example" 0 "0.2"]
  by (simp add: example_memory_def)

subsection \<open>Channel heat and mass transfer coefficients\<close>

lemma ChannelHeatTransfCoef_value:
  "fst (ChannelHeatTransfCoef mem bulk wall m h w n sp)
    = SaltWaterProperties.thermal_conductivity (salt_water_heap mem bulk)
      * (0.22 * ((m / (real_of_int n * h * w * sp) * h
                   / SaltWaterProperties.dyn_viscosity (salt_water_heap mem bulk)) powr 0.69)
          * (SaltWaterProperties.prandtl (salt_water_heap mem bulk) powr 0.13)
          * ((SaltWaterProperties.prandtl (salt_water_heap mem bulk)
               / SaltWaterProperties.prandtl (salt_water_heap mem wall)) powr 0.25)) / h"
  by (simp add: ChannelHeatTransfCoef_def Let_def)

lemma ChannelMassTransfCoef_value:
  "fst (ChannelMassTransfCoef mem bulk wall m h w n sp)
    = SaltWaterProperties.mass_diffusivity (salt_water_heap mem bulk)
      * (0.22 * ((m / (real_of_int n * h * w * sp) * h
                   / SaltWaterProperties.dyn_viscosity (salt_water_heap mem bulk)) powr 0.69)
          * (SaltWaterProperties.schmidt (salt_water_heap mem bulk) powr 0.13)
          * ((SaltWaterProperties.schmidt (salt_water_heap mem bulk)
               / SaltWaterProperties.schmidt (salt_water_heap mem wall)) powr 0.25)) / h"
  by (simp add: ChannelMassTransfCoef_def Let_def)

text \<open>
  Both correlations have the same shape: a positive factor times the Reynolds number
  to the power 0.69, and the Reynolds number grows with the flow rate.
\<close>

lemma channel_correlation_mono:
  fixes m1 m2 n h w sp mu k p pw :: real
  assumes m: "0 < m1" "m1 < m2"
      and g: "0 < n" "0 < h" "0 < w" "0 < sp"
      and b: "0 < mu" "0 < k" "0 < p" "0 < pw"
  shows "k * (0.22 * ((m1 / (n * h * w * sp) * h / mu) powr 0.69) * (p powr 0.13)
              * ((p / pw) powr 0.25)) / h
       < k * (0.22 * ((m2 / (n * h * w * sp) * h / mu) powr 0.69) * (p powr 0.13)
              * ((p / pw) powr 0.25)) / h"
proof -
  define r1 where "r1 = m1 / (n * h * w * sp) * h / mu"
  define r2 where "r2 = m2 / (n * h * w * sp) * h / mu"
  have area: "0 < n * h * w * sp" using g by simp
  have "m1 / (n * h * w * sp) < m2 / (n * h * w * sp)"
    using m(2) area by (rule divide_strict_right_mono)
  then have "m1 / (n * h * w * sp) * h < m2 / (n * h * w * sp) * h"
    using g(2) by (rule mult_strict_right_mono)
  then have lt: "r1 < r2"
    unfolding r1_def r2_def using b(1) by (rule divide_strict_right_mono)
  have nonneg: "0 \<le> r1"
    unfolding r1_def using m(1) g b(1) by simp
  have pw: "r1 powr 0.69 < r2 powr 0.69"
    using nonneg lt by (intro powr_less_mono2) simp_all
  have c1: "0 < p powr 0.13" using b(3) by simp
  have c2: "0 < (p / pw) powr 0.25" using b(3,4) by simp
  have "0.22 * (r1 powr 0.69) < 0.22 * (r2 powr 0.69)" using pw by simp
  then have "0.22 * (r1 powr 0.69) * (p powr 0.13) < 0.22 * (r2 powr 0.69) * (p powr 0.13)"
    using c1 by (rule mult_strict_right_mono)
  then have "0.22 * (r1 powr 0.69) * (p powr 0.13) * ((p / pw) powr 0.25)
           < 0.22 * (r2 powr 0.69) * (p powr 0.13) * ((p / pw) powr 0.25)"
    using c2 by (rule mult_strict_right_mono)
  then have "k * (0.22 * (r1 powr 0.69) * (p powr 0.13) * ((p / pw) powr 0.25))
           < k * (0.22 * (r2 powr 0.69) * (p powr 0.13) * ((p / pw) powr 0.25))"
    using b(2) by (rule mult_strict_left_mono)
  then show ?thesis
    unfolding r1_def r2_def using g(2) by (rule divide_strict_right_mono)
qed

text \<open>
  C5. With positive bulk and wall properties, positive channel height, width and
  spacer porosity and a positive channel count, \<open>ChannelHeatTransfCoef\<close> and
  \<open>ChannelMassTransfCoef\<close> are strictly increasing in \<open>mass_flow_rate\<close> over
  positive flow rates.
\<close>

theorem channel_coefficients_strictly_increasing:
  assumes "0 < SaltWaterProperties.dyn_viscosity (salt_water_heap mem bulk_water_prop)"
      and "0 < SaltWaterProperties.thermal_conductivity (salt_water_heap mem bulk_water_prop)"
      and "0 < SaltWaterProperties.prandtl (salt_water_heap mem bulk_water_prop)"
      and "0 < SaltWaterProperties.mass_diffusivity (salt_water_heap mem bulk_water_prop)"
      and "0 < SaltWaterProperties.schmidt (salt_water_heap mem bulk_water_prop)"
      and "0 < SaltWaterProperties.prandtl (salt_water_heap mem wall_water_prop)"
      and "0 < SaltWaterProperties.schmidt (salt_water_heap mem wall_water_prop)"
      and "0 < channel_height" and "0 < channel_width"
      and "0 < number_channels" and "0 < spacer_porosity"
      and "0 < mass_flow_rate" and "mass_flow_rate < mass_flow_rate'"
  shows "fst (ChannelHeatTransfCoef mem bulk_water_prop wall_water_prop mass_flow_rate
                channel_height channel_width number_channels spacer_porosity)
       < fst (ChannelHeatTransfCoef mem bulk_water_prop wall_water_prop mass_flow_rate'
                channel_height channel_width number_channels spacer_porosity)
     \<and> fst (ChannelMassTransfCoef mem bulk_water_prop wall_water_prop mass_flow_rate
                channel_height channel_width number_channels spacer_porosity)
       < fst (ChannelMassTransfCoef mem bulk_water_prop wall_water_prop mass_flow_rate'
                channel_height channel_width number_channels spacer_porosity)"
proof -
  have n: "0 < real_of_int number_channels" using assms(10) by simp
  show ?thesis
    unfolding ChannelHeatTransfCoef_value ChannelMassTransfCoef_value
    using channel_correlation_mono [OF assms(12,13) n assms(8,9,11) assms(1,2,3,6)]
          channel_correlation_mono [OF assms(12,13) n assms(8,9,11) assms(1,4,5,7)]
    by (rule conjI)
qed

text \<open>
  Three channels of height 2 mm and width 0.1 m at spacer porosity 0.8: raising the
  flow rate from 0.01 to 0.02 kg/s raises both coefficients.
\<close>

theorem channel_coefficients_strictly_increasing_witness:
  "(0::real) < 0.01 \<and> (0.01::real) < 0.02
   \<and> fst (ChannelHeatTransfCoef (example_memory wall_example) 0 1 0.01 0.002 0.1 3 0.8)
       < fst (ChannelHeatTransfCoef (example_memory wall_example) 0 1 0.02 0.002 0.1 3 0.8)
   \<and> fst (ChannelMassTransfCoef (example_memory wall_example) 0 1 0.01 0.002 0.1 3 0.8)
       < fst (ChannelMassTransfCoef (example_memory wall_example) 0 1 0.02 0.002 0.1 3 0.8)"
  using channel_coefficients_strictly_increasing
          [of "example_memory wall_example" 0 1 "0.002" "0.1" 3 "0.8" "0.01" "0.02"]
  by (simp add: example_memory_def bulk_example_def wall_example_def)

text \<open>
  C10. \<open>ChannelHeatTransfCoef\<close> depends on the wall snapshot only through its
  \<open>prandtl\<close> field and \<open>ChannelMassTransfCoef\<close> only through its \<open>schmidt\<close> field:
  two calls with the same bulk snapshot and the same other arguments, whose wall
  snapshots agree on that one field, return the same value, whatever the other fields
  of the wall snapshots are.
\<close>

theorem channel_coefficients_wall_dependence:
  assumes "salt_water_heap mem bulk_water_prop = salt_water_heap mem' bulk_water_prop'"
  shows "(SaltWaterProperties.prandtl (salt_water_heap mem wall_water_prop)
             = SaltWaterProperties.prandtl (salt_water_heap mem' wall_water_prop') \<longrightarrow>
          fst (ChannelHeatTransfCoef mem bulk_water_prop wall_water_prop mass_flow_rate
                channel_height channel_width number_channels spacer_porosity)
        = fst (ChannelHeatTransfCoef mem' bulk_water_prop' wall_water_prop' mass_flow_rate
                channel_height channel_width number_channels spacer_porosity))
       \<and> (SaltWaterProperties.schmidt (salt_water_heap mem wall_water_prop)
             = SaltWaterProperties.schmidt (salt_water_heap mem' wall_water_prop') \<longrightarrow>
          fst (ChannelMassTransfCoef mem bulk_water_prop wall_water_prop mass_flow_rate
                channel_height channel_width number_channels spacer_porosity)
        = fst (ChannelMassTransfCoef mem' bulk_water_prop' wall_water_prop' mass_flow_rate
                channel_height channel_width number_channels spacer_porosity))"
  using assms by (simp add: ChannelHeatTransfCoef_value ChannelMassTransfCoef_value)

text \<open>
  The two example wall snapshots differ in viscosity, conductivity and diffusivity and
  agree on the Prandtl and Schmidt numbers; the coefficients are the same.
\<close>

theorem channel_coefficients_wall_dependence_witness:
  "wall_example \<noteq> wall_example'
   \<and> salt_water_heap (example_memory wall_example) 0 = salt_water_heap (example_memory wall_example') 0
   \<and> SaltWaterProperties.prandtl (salt_water_heap (example_memory wall_example) 1)
       = SaltWaterProperties.prandtl (salt_water_heap (example_memory wall_example') 1)
   \<and> SaltWaterProperties.schmidt (salt_water_heap (example_memory wall_example) 1)
       = SaltWaterProperties.schmidt (salt_water_heap (example_memory wall_example') 1)
   \<and> fst (ChannelHeatTransfCoef (example_memory wall_example) 0 1 0.01 0.002 0.1 3 0.8)
       = fst (ChannelHeatTransfCoef (example_memory wall_example') 0 1 0.01 0.002 0.1 3 0.8)
   \<and> fst (ChannelMassTransfCoef (example_memory wall_example) 0 1 0.01 0.002 0.1 3 0.8)
       = fst (ChannelMassTransfCoef (example_memory wall_example') 0 1 0.01 0.002 0.1 3 0.8)"
  using channel_coefficients_wall_dependence
          [of "example_memory wall_example" 0 "example_memory wall_example'" 0 1 1
              "0.01" "0.002" "0.1" 3 "0.8"]
  by (simp add: example_memory_def wall_example_def wall_example'_def)

subsection \<open>Diffusivities\<close>

lemma M_PI_pos: "0 < M_PI"
  by (simp add: M_PI_def)

lemma KnudsenDiffusion_value:
  "KnudsenDiffusion c e t d T
     = d / 3 * (e / t) * sqrt (8 * gas_constant c * T / (M_PI * water_molar_mass c))"
  by (simp add: KnudsenDiffusion_def Let_def)

lemma kinetic_ratio_pos:
  assumes "0 < gas_constant c" "0 < water_molar_mass c" "0 < T"
  shows "0 < 8 * gas_constant c * T / (M_PI * water_molar_mass c)"
  using assms M_PI_pos by simp

lemma KnudsenDiffusion_pos:
  assumes "0 < gas_constant c" "0 < water_molar_mass c"
      and "0 < e" "0 < t" "0 < d" "0 < T"
  shows "0 < KnudsenDiffusion c e t d T"
  unfolding KnudsenDiffusion_value
  using assms kinetic_ratio_pos [OF assms(1,2,6)] by simp

lemma MolecularDiffusion_value:
  "MolecularDiffusion e t T = 4.46 / 10 ^ 6 * e / t * (T powr 2.334)"
  by (simp add: MolecularDiffusion_def Let_def)

lemma MolecularDiffusion_pos:
  assumes "0 < e" "0 < t" "0 < T"
  shows "0 < MolecularDiffusion e t T"
  unfolding MolecularDiffusion_value using assms by simp

text \<open>
  C6. With positive gas constant and molar mass, and positive porosity, tortuosity,
  pore diameter and absolute temperature, \<open>KnudsenDiffusion\<close> is strictly increasing
  in the temperature, to whose square root it is proportional, strictly increasing in
  the pore diameter, and strictly decreasing in the tortuosity, the other arguments
  held fixed.
\<close>

theorem KnudsenDiffusion_monotone:
  assumes c: "0 < gas_constant c" "0 < water_molar_mass c"
      and e: "0 < membrane_porosity" and t: "0 < membrane_tortuosity"
      and d: "0 < pore_diameter" and T: "0 < temperature"
  shows "(temperature < temperature' \<longrightarrow>
            KnudsenDiffusion c membrane_porosity membrane_tortuosity pore_diameter temperature
          < KnudsenDiffusion c membrane_porosity membrane_tortuosity pore_diameter temperature')
       \<and> (pore_diameter < pore_diameter' \<longrightarrow>
            KnudsenDiffusion c membrane_porosity membrane_tortuosity pore_diameter temperature
          < KnudsenDiffusion c membrane_porosity membrane_tortuosity pore_diameter' temperature)
       \<and> (membrane_tortuosity < membrane_tortuosity' \<longrightarrow>
            KnudsenDiffusion c membrane_porosity membrane_tortuosity' pore_diameter temperature
          < KnudsenDiffusion c membrane_porosity membrane_tortuosity pore_diameter temperature)
       \<and> KnudsenDiffusion c membrane_porosity membrane_tortuosity pore_diameter temperature
          = KnudsenDiffusion c membrane_porosity membrane_tortuosity pore_diameter 1 * sqrt temperature"
proof (intro conjI impI)
  define q where "q = 8 * gas_constant c / (M_PI * water_molar_mass c)"
  have q: "0 < q" unfolding q_def using c M_PI_pos by simp
  have ratio: "8 * gas_constant c * x / (M_PI * water_molar_mass c) = q * x" for x
    by (simp add: q_def)
  have geom: "0 < pore_diameter / 3 * (membrane_porosity / membrane_tortuosity)"
    using e t d by simp
  {
    assume lt: "temperature < temperature'"
    have "q * temperature < q * temperature'" using q lt by simp
    then have "sqrt (q * temperature) < sqrt (q * temperature')" by simp
    then show "KnudsenDiffusion c membrane_porosity membrane_tortuosity pore_diameter temperature
          < KnudsenDiffusion c membrane_porosity membrane_tortuosity pore_diameter temperature'"
      unfolding KnudsenDiffusion_value ratio using geom by (rule mult_strict_left_mono)
  }
  have root: "0 < sqrt (q * temperature)" using q T by simp
  {
    assume lt: "pore_diameter < pore_diameter'"
    have et: "0 < membrane_porosity / membrane_tortuosity" using e t by simp
    have "pore_diameter / 3 < pore_diameter' / 3" using lt by simp
    then have "pore_diameter / 3 * (membrane_porosity / membrane_tortuosity)
             < pore_diameter' / 3 * (membrane_porosity / membrane_tortuosity)"
      using et by (rule mult_strict_right_mono)
    then show "KnudsenDiffusion c membrane_porosity membrane_tortuosity pore_diameter temperature
          < KnudsenDiffusion c membrane_porosity membrane_tortuosity pore_diameter' temperature"
      unfolding KnudsenDiffusion_value ratio using root by (rule mult_strict_right_mono)
  }
  {
    assume lt: "membrane_tortuosity < membrane_tortuosity'"
    have "membrane_porosity / membrane_tortuosity' < membrane_porosity / membrane_tortuosity"
      using lt t e by (simp add: divide_strict_left_mono)
    moreover have "0 < pore_diameter / 3" using d by simp
    ultimately have "pore_diameter / 3 * (membrane_porosity / membrane_tortuosity')
             < pore_diameter / 3 * (membrane_porosity / membrane_tortuosity)"
      by (rule mult_strict_left_mono)
    then show "KnudsenDiffusion c membrane_porosity membrane_tortuosity' pore_diameter temperature
          < KnudsenDiffusion c membrane_porosity membrane_tortuosity pore_diameter temperature"
      unfolding KnudsenDiffusion_value ratio using root by (rule mult_strict_right_mono)
  }
  show "KnudsenDiffusion c membrane_porosity membrane_tortuosity pore_diameter temperature
          = KnudsenDiffusion c membrane_porosity membrane_tortuosity pore_diameter 1 * sqrt temperature"
    unfolding KnudsenDiffusion_value ratio by (simp add: real_sqrt_mult)
qed

text \<open>
  At porosity 0.8, tortuosity 1.5, pore diameter 0.2 micrometre and 300 K: a warmer
  gas and a wider pore diffuse faster, a more tortuous membrane slower.
\<close>

theorem KnudsenDiffusion_monotone_witness:
  "(300::real) < 333 \<and> (2 / 10 ^ 7 :: real) < 4 / 10 ^ 7 \<and> (1.5::real) < 2
   \<and> KnudsenDiffusion SI_constants 0.8 1.5 (2 / 10 ^ 7) 300
       < KnudsenDiffusion SI_constants 0.8 1.5 (2 / 10 ^ 7) 333
   \<and> KnudsenDiffusion SI_constants 0.8 1.5 (2 / 10 ^ 7) 300
       < KnudsenDiffusion SI_constants 0.8 1.5 (4 / 10 ^ 7) 300
   \<and> KnudsenDiffusion SI_constants 0.8 2 (2 / 10 ^ 7) 300
       < KnudsenDiffusion SI_constants 0.8 1.5 (2 / 10 ^ 7) 300
   \<and> KnudsenDiffusion SI_constants 0.8 1.5 (2 / 10 ^ 7) 300
       = KnudsenDiffusion SI_constants 0.8 1.5 (2 / 10 ^ 7) 1 * sqrt 300"
  using KnudsenDiffusion_monotone [of SI_constants "0.8" "1.5" "2 / 10 ^ 7" 300 333 "4 / 10 ^ 7" 2]
  by (simp add: SI_constants_def)

subsection \<open>Mass flux\<close>

lemma series_pos:
  fixes a b :: real
  assumes "0 < a" "0 < b"
  shows "0 < a * b / (a + b)"
  using assms by simp

lemma MassFlux_value:
  "MassFlux c e t th d gsp gap tm tg pf pb pv =
     (water_molar_mass c
        * (MolecularDiffusion e t (tm + 273.15) * KnudsenDiffusion c e t d (tm + 273.15)
            / (MolecularDiffusion e t (tm + 273.15)
                + (atm_pressure c + pv) * KnudsenDiffusion c e t d (tm + 273.15)))
        / (gas_constant c * (tm + 273.15) * th))
     * (water_molar_mass c * MolecularDiffusion 1 1 (tg + 273.15)
        / (gas_constant c * (tg + 273.15) * (atm_pressure c + pv) * gap))
     / ((water_molar_mass c
        * (MolecularDiffusion e t (tm + 273.15) * KnudsenDiffusion c e t d (tm + 273.15)
            / (MolecularDiffusion e t (tm + 273.15)
                + (atm_pressure c + pv) * KnudsenDiffusion c e t d (tm + 273.15)))
        / (gas_constant c * (tm + 273.15) * th))
       + (water_molar_mass c * MolecularDiffusion 1 1 (tg + 273.15)
        / (gas_constant c * (tg + 273.15) * (atm_pressure c + pv) * gap)))
     * (pf - pb)"
  by (simp add: MassFlux_def Let_def)

lemma membrane_permeability_pos:
  assumes c: "0 < gas_constant c" "0 < water_molar_mass c" "0 < atm_pressure c + pv"
      and g: "0 < e" "0 < t" "0 < th" "0 < d"
      and T: "0 < tm + 273.15"
  shows "0 < water_molar_mass c
        * (MolecularDiffusion e t (tm + 273.15) * KnudsenDiffusion c e t d (tm + 273.15)
            / (MolecularDiffusion e t (tm + 273.15)
                + (atm_pressure c + pv) * KnudsenDiffusion c e t d (tm + 273.15)))
        / (gas_constant c * (tm + 273.15) * th)"
proof -
  have m: "0 < MolecularDiffusion e t (tm + 273.15)"
    using g(1,2) T by (rule MolecularDiffusion_pos)
  have k: "0 < KnudsenDiffusion c e t d (tm + 273.15)"
    using c(1,2) g(1,2,4) T by (rule KnudsenDiffusion_pos)
  have "0 < (atm_pressure c + pv) * KnudsenDiffusion c e t d (tm + 273.15)"
    using c(3) k by simp
  then have den: "0 < MolecularDiffusion e t (tm + 273.15)
                + (atm_pressure c + pv) * KnudsenDiffusion c e t d (tm + 273.15)"
    using m by simp
  have num: "0 < MolecularDiffusion e t (tm + 273.15) * KnudsenDiffusion c e t d (tm + 273.15)"
    using m k by simp
  have eff: "0 < MolecularDiffusion e t (tm + 273.15) * KnudsenDiffusion c e t d (tm + 273.15)
            / (MolecularDiffusion e t (tm + 273.15)
                + (atm_pressure c + pv) * KnudsenDiffusion c e t d (tm + 273.15))"
    using num den by (rule divide_pos_pos)
  have "0 < gas_constant c * (tm + 273.15) * th"
    using c(1) T g(3) by simp
  moreover have "0 < water_molar_mass c
        * (MolecularDiffusion e t (tm + 273.15) * KnudsenDiffusion c e t d (tm + 273.15)
            / (MolecularDiffusion e t (tm + 273.15)
                + (atm_pressure c + pv) * KnudsenDiffusion c e t d (tm + 273.15)))"
    using c(2) eff by (rule mult_pos_pos)
  ultimately show ?thesis by (rule divide_pos_pos [rotated])
qed

lemma gap_quotient_pos:
  assumes c: "0 < gas_constant c" "0 < atm_pressure c + pv"
      and g: "0 < gap" and T: "0 < tg + 273.15"
  shows "0 < MolecularDiffusion 1 1 (tg + 273.15)
        / (gas_constant c * (tg + 273.15) * (atm_pressure c + pv) * gap)"
proof -
  have "0 < MolecularDiffusion 1 1 (tg + 273.15)"
    using T by (intro MolecularDiffusion_pos) simp_all
  moreover have "0 < gas_constant c * (tg + 273.15) * (atm_pressure c + pv) * gap"
    using c g T by simp
  ultimately show ?thesis by (rule divide_pos_pos)
qed

lemma unit_flux_pos:
  assumes c: "0 < gas_constant c" "0 < water_molar_mass c" "0 < atm_pressure c + pv"
      and g: "0 < e" "0 < t" "0 < th" "0 < d" "0 < gap"
      and T: "0 < tm + 273.15" "0 < tg + 273.15"
  shows "0 < MassFlux c e t th d gsp gap tm tg 1 0 pv"
proof -
  have km: "0 < water_molar_mass c
        * (MolecularDiffusion e t (tm + 273.15) * KnudsenDiffusion c e t d (tm + 273.15)
            / (MolecularDiffusion e t (tm + 273.15)
                + (atm_pressure c + pv) * KnudsenDiffusion c e t d (tm + 273.15)))
        / (gas_constant c * (tm + 273.15) * th)"
    using c g(1,2,3,4) T(1) by (rule membrane_permeability_pos)
  have "0 < water_molar_mass c * (MolecularDiffusion 1 1 (tg + 273.15)
        / (gas_constant c * (tg + 273.15) * (atm_pressure c + pv) * gap))"
    using c(2) gap_quotient_pos [OF c(1,3) g(5) T(2)] by (rule mult_pos_pos)
  then have kg: "0 < water_molar_mass c * MolecularDiffusion 1 1 (tg + 273.15)
        / (gas_constant c * (tg + 273.15) * (atm_pressure c + pv) * gap)"
    by simp
  show ?thesis
    unfolding MassFlux_value using series_pos [OF km kg] by simp
qed

lemma MassFlux_unit_slope:
  "MassFlux c e t th d gsp gap tm tg pf pb pv
     = MassFlux c e t th d gsp gap tm tg 1 0 pv * (pf - pb)"
  unfolding MassFlux_value by simp

text \<open>
  C9. The result of \<open>MassFlux\<close> does not depend on its \<open>gap_spacer_porosity\<close>
  argument: with the other ten arguments fixed, any two values of it give the same
  result. The parameter is accepted and never read.
\<close>

theorem MassFlux_ignores_gap_spacer_porosity:
  "MassFlux c membrane_porosity membrane_tortuosity membrane_thickness pore_diameter
       gap_spacer_porosity air_gap_thickness temperature_membrane temperature_gap
       feed_membrane_pressure film_boundary_pressure vacuum_pressure
   = MassFlux c membrane_porosity membrane_tortuosity membrane_thickness pore_diameter
       gap_spacer_porosity' air_gap_thickness temperature_membrane temperature_gap
       feed_membrane_pressure film_boundary_pressure vacuum_pressure"
  by (simp add: MassFlux_def)

text \<open>
  C2. For positive constants, geometry and absolute temperatures and a positive total
  pressure, \<open>MassFlux\<close> is linear in the pressure difference
  \<open>feed_membrane_pressure - film_boundary_pressure\<close> (the flux at unit difference
  times the difference), with a positive slope, so it is strictly increasing in the
  difference; and it is zero when the two pressures are equal.
\<close>

theorem MassFlux_linear_in_pressure_difference:
  assumes c: "0 < gas_constant c" "0 < water_molar_mass c" "0 < atm_pressure c + vacuum_pressure"
      and g: "0 < membrane_porosity" "0 < membrane_tortuosity" "0 < membrane_thickness"
             "0 < pore_diameter" "0 < air_gap_thickness"
      and T: "0 < temperature_membrane + 273.15" "0 < temperature_gap + 273.15"
  shows "MassFlux c membrane_porosity membrane_tortuosity membrane_thickness pore_diameter
            gap_spacer_porosity air_gap_thickness temperature_membrane temperature_gap
            feed_membrane_pressure film_boundary_pressure vacuum_pressure
         = MassFlux c membrane_porosity membrane_tortuosity membrane_thickness pore_diameter
            gap_spacer_porosity air_gap_thickness temperature_membrane temperature_gap
            1 0 vacuum_pressure * (feed_membrane_pressure - film_boundary_pressure)
       \<and> 0 < MassFlux c membrane_porosity membrane_tortuosity membrane_thickness pore_diameter
            gap_spacer_porosity air_gap_thickness temperature_membrane temperature_gap
            1 0 vacuum_pressure
       \<and> (feed_membrane_pressure - film_boundary_pressure
            < feed_membrane_pressure' - film_boundary_pressure' \<longrightarrow>
          MassFlux c membrane_porosity membrane_tortuosity membrane_thickness pore_diameter
            gap_spacer_porosity air_gap_thickness temperature_membrane temperature_gap
            feed_membrane_pressure film_boundary_pressure vacuum_pressure
          < MassFlux c membrane_porosity membrane_tortuosity membrane_thickness pore_diameter
            gap_spacer_porosity air_gap_thickness temperature_membrane temperature_gap
            feed_membrane_pressure' film_boundary_pressure' vacuum_pressure)
       \<and> (feed_membrane_pressure = film_boundary_pressure \<longrightarrow>
          MassFlux c membrane_porosity membrane_tortuosity membrane_thickness pore_diameter
            gap_spacer_porosity air_gap_thickness temperature_membrane temperature_gap
            feed_membrane_pressure film_boundary_pressure vacuum_pressure = 0)"
proof -
  have pos: "0 < MassFlux c membrane_porosity membrane_tortuosity membrane_thickness pore_diameter
            gap_spacer_porosity air_gap_thickness temperature_membrane temperature_gap
            1 0 vacuum_pressure"
    using c g T by (rule unit_flux_pos)
  show ?thesis
  proof (intro conjI impI)
    show "MassFlux c membrane_porosity membrane_tortuosity membrane_thickness pore_diameter
            gap_spacer_porosity air_gap_thickness temperature_membrane temperature_gap
            feed_membrane_pressure film_boundary_pressure vacuum_pressure
         = MassFlux c membrane_porosity membrane_tortuosity membrane_thickness pore_diameter
            gap_spacer_porosity air_gap_thickness temperature_membrane temperature_gap
            1 0 vacuum_pressure * (feed_membrane_pressure - film_boundary_pressure)"
      by (rule MassFlux_unit_slope)
    show "0 < MassFlux c membrane_porosity membrane_tortuosity membrane_thickness pore_diameter
            gap_spacer_porosity air_gap_thickness temperature_membrane temperature_gap
            1 0 vacuum_pressure"
      by (rule pos)
  next
    assume "feed_membrane_pressure - film_boundary_pressure
            < feed_membrane_pressure' - film_boundary_pressure'"
    then have "MassFlux c membrane_porosity membrane_tortuosity membrane_thickness pore_diameter
            gap_spacer_porosity air_gap_thickness temperature_membrane temperature_gap
            1 0 vacuum_pressure * (feed_membrane_pressure - film_boundary_pressure)
       < MassFlux c membrane_porosity membrane_tortuosity membrane_thickness pore_diameter
            gap_spacer_porosity air_gap_thickness temperature_membrane temperature_gap
            1 0 vacuum_pressure * (feed_membrane_pressure' - film_boundary_pressure')"
      using pos by (rule mult_strict_left_mono)
    then show "MassFlux c membrane_porosity membrane_tortuosity membrane_thickness pore_diameter
            gap_spacer_porosity air_gap_thickness temperature_membrane temperature_gap
            feed_membrane_pressure film_boundary_pressure vacuum_pressure
          < MassFlux c membrane_porosity membrane_tortuosity membrane_thickness pore_diameter
            gap_spacer_porosity air_gap_thickness temperature_membrane temperature_gap
            feed_membrane_pressure' film_boundary_pressure' vacuum_pressure"
      by (simp only:
            MassFlux_unit_slope [where pf = feed_membrane_pressure and pb = film_boundary_pressure]
            MassFlux_unit_slope [where pf = feed_membrane_pressure' and pb = film_boundary_pressure'])
  next
    assume "feed_membrane_pressure = film_boundary_pressure"
    then show "MassFlux c membrane_porosity membrane_tortuosity membrane_thickness pore_diameter
            gap_spacer_porosity air_gap_thickness temperature_membrane temperature_gap
            feed_membrane_pressure film_boundary_pressure vacuum_pressure = 0"
      by (simp add:
            MassFlux_unit_slope [where pf = film_boundary_pressure and pb = film_boundary_pressure])
  qed
qed

text \<open>
  Porosity 0.8, tortuosity 1.5, a 100 micrometre membrane with 0.2 micrometre pores, a
  2 mm gap, 60 and 25 degrees Celsius, no vacuum: the flux at 3170 Pa on both sides is
  zero, and the flux from 19946 Pa to 3170 Pa is positive and below the flux from
  25000 Pa to 3170 Pa.
\<close>

theorem MassFlux_linear_in_pressure_difference_witness:
  "0 < gas_constant SI_constants \<and> 0 < water_molar_mass SI_constants
   \<and> 0 < atm_pressure SI_constants + 0
   \<and> (60::real) + 273.15 > 0 \<and> (25::real) + 273.15 > 0
   \<and> MassFlux SI_constants 0.8 1.5 (100 / 10 ^ 6) (0.2 / 10 ^ 6) 0.8 0.002 60 25 3170 3170 0 = 0
   \<and> MassFlux SI_constants 0.8 1.5 (100 / 10 ^ 6) (0.2 / 10 ^ 6) 0.8 0.002 60 25 19946 3170 0
       = MassFlux SI_constants 0.8 1.5 (100 / 10 ^ 6) (0.2 / 10 ^ 6) 0.8 0.002 60 25 1 0 0 * 16776
   \<and> 0 < MassFlux SI_constants 0.8 1.5 (100 / 10 ^ 6) (0.2 / 10 ^ 6) 0.8 0.002 60 25 1 0 0
   \<and> MassFlux SI_constants 0.8 1.5 (100 / 10 ^ 6) (0.2 / 10 ^ 6) 0.8 0.002 60 25 19946 3170 0
       < MassFlux SI_constants 0.8 1.5 (100 / 10 ^ 6) (0.2 / 10 ^ 6) 0.8 0.002 60 25 25000 3170 0"
  using MassFlux_linear_in_pressure_difference
          [where c = SI_constants and vacuum_pressure = 0 and membrane_porosity = "0.8"
             and membrane_tortuosity = "1.5" and membrane_thickness = "100 / 10 ^ 6"
             and pore_diameter = "0.2 / 10 ^ 6" and air_gap_thickness = "0.002"
             and temperature_membrane = 60 and temperature_gap = 25
             and gap_spacer_porosity = "0.8"
             and feed_membrane_pressure = 3170 and film_boundary_pressure = 3170]
        MassFlux_linear_in_pressure_difference
          [where c = SI_constants and vacuum_pressure = 0 and membrane_porosity = "0.8"
             and membrane_tortuosity = "1.5" and membrane_thickness = "100 / 10 ^ 6"
             and pore_diameter = "0.2 / 10 ^ 6" and air_gap_thickness = "0.002"
             and temperature_membrane = 60 and temperature_gap = 25
             and gap_spacer_porosity = "0.8"
             and feed_membrane_pressure = 19946 and film_boundary_pressure = 3170
             and feed_membrane_pressure' = 25000 and film_boundary_pressure' = 3170]
  by (simp add: SI_constants_def)

subsection \<open>The flux against the specification's formula\<close>

lemma series_scaled_differs:
  fixes a g M :: real
  assumes a: "0 < a" and g: "0 < g" and M: "0 < M" "M \<noteq> 1"
  shows "a * (M * g) / (a + M * g) \<noteq> a * g / (a + g)"
proof
  assume eq: "a * (M * g) / (a + M * g) = a * g / (a + g)"
  have "0 < a + M * g" using a g M(1) by (simp add: add_pos_pos)
  then have d1: "a + M * g \<noteq> 0" by simp
  have d2: "a + g \<noteq> 0" using a g by simp
  from eq have "a * (M * g) * (a + g) = a * g * (a + M * g)"
    using d1 d2 by (simp add: frac_eq_eq)
  then have "(a * g) * (M * (a + g)) = (a * g) * (a + M * g)"
    by (simp add: mult_ac)
  moreover have "a * g \<noteq> 0" using a g by simp
  ultimately have "M * (a + g) = a + M * g" by simp
  then have "M * a = a" by (simp add: distrib_left)
  then have "M = 1" using a by simp
  with M(2) show False by simp
qed

lemma MassFlux_as_spec_mass_flux:
  "MassFlux c e t th d gsp gap tm tg pf pb pv
   = spec_mass_flux c (water_molar_mass c * spec_k_gap c (tg + 273.15) pv gap)
       e t th d (tm + 273.15) pf pb pv"
  by (simp add: MassFlux_value spec_mass_flux_def spec_k_overall_def spec_k_membrane_def
        spec_D_eff_def spec_k_gap_def Let_def)

text \<open>
  With the air-gap quotient taken without the molar mass, the formula misses the code
  wherever the inputs are valid, the molar mass is not 1 and the pressures differ.
\<close>

lemma MassFlux_differs_from_bare_gap_quotient:
  assumes c: "0 < gas_constant c" "0 < water_molar_mass c" "0 < atm_pressure c + pv"
      and g: "0 < e" "0 < t" "0 < th" "0 < d" "0 < gap"
      and T: "0 < tm + 273.15" "0 < tg + 273.15"
      and M: "water_molar_mass c \<noteq> 1" and p: "pf \<noteq> pb"
  shows "MassFlux c e t th d gsp gap tm tg pf pb pv
   \<noteq> spec_mass_flux c (spec_k_gap c (tg + 273.15) pv gap) e t th d (tm + 273.15) pf pb pv"
proof -
  define km where "km = spec_k_membrane c
     (spec_D_eff c (MolecularDiffusion e t (tm + 273.15)) (KnudsenDiffusion c e t d (tm + 273.15)) pv)
     (tm + 273.15) th"
  define kg where "kg = spec_k_gap c (tg + 273.15) pv gap"
  have km: "0 < km"
    unfolding km_def spec_k_membrane_def spec_D_eff_def
    using c g(1,2,3,4) T(1) by (rule membrane_permeability_pos)
  have kg: "0 < kg"
    unfolding kg_def spec_k_gap_def
    using c(1,3) g(5) T(2) by (rule gap_quotient_pos)
  have ne: "km * (water_molar_mass c * kg) / (km + water_molar_mass c * kg) \<noteq> km * kg / (km + kg)"
    using km kg c(2) M by (rule series_scaled_differs)
  have l: "MassFlux c e t th d gsp gap tm tg pf pb pv
      = km * (water_molar_mass c * kg) / (km + water_molar_mass c * kg) * (pf - pb)"
    unfolding MassFlux_as_spec_mass_flux
    by (simp add: spec_mass_flux_def spec_k_overall_def km_def kg_def Let_def)
  have r: "spec_mass_flux c (spec_k_gap c (tg + 273.15) pv gap) e t th d (tm + 273.15) pf pb pv
      = km * kg / (km + kg) * (pf - pb)"
    by (simp add: spec_mass_flux_def spec_k_overall_def km_def kg_def Let_def)
  show ?thesis
  proof
    assume "MassFlux c e t th d gsp gap tm tg pf pb pv
      = spec_mass_flux c (spec_k_gap c (tg + 273.15) pv gap) e t th d (tm + 273.15) pf pb pv"
    then have "km * (water_molar_mass c * kg) / (km + water_molar_mass c * kg) * (pf - pb)
             = km * kg / (km + kg) * (pf - pb)"
      by (simp only: l r)
    moreover have "pf - pb \<noteq> 0" using p by simp
    ultimately have "km * (water_molar_mass c * kg) / (km + water_molar_mass c * kg)
             = km * kg / (km + kg)"
      by (metis mult_right_cancel)
    with ne show False by simp
  qed
qed

text \<open>
  C1, as stated: \<open>MassFlux\<close> returns \<open>k_overall * (feed_membrane_pressure -
  film_boundary_pressure)\<close> with \<open>k_gap\<close> the molecular diffusivity at porosity and
  tortuosity 1 and the gap temperature divided by
  \<open>R * T_gap * (P_atm + P_vacuum) * air_gap_thickness\<close>. This fails: at porosity 0.8,
  tortuosity 1.5, a 100 micrometre membrane with 0.2 micrometre pores, a 2 mm gap,
  60 and 25 degrees Celsius, 19946 Pa against 3170 Pa and no vacuum, with the constants
  in SI units, the code returns another value, since its air-gap permeability carries
  the factor \<open>water_molar_mass\<close>.
\<close>

theorem MassFlux_bare_gap_quotient_counterexample:
  "MassFlux SI_constants 0.8 1.5 (100 / 10 ^ 6) (0.2 / 10 ^ 6) 0.8 0.002 60 25 19946 3170 0
   \<noteq> spec_mass_flux SI_constants (spec_k_gap SI_constants (25 + 273.15) 0 0.002)
       0.8 1.5 (100 / 10 ^ 6) (0.2 / 10 ^ 6) (60 + 273.15) 19946 3170 0"
  by (rule MassFlux_differs_from_bare_gap_quotient) (simp_all add: SI_constants_def)

text \<open>
  C1, amended: \<open>MassFlux\<close> returns \<open>k_overall * (feed_membrane_pressure -
  film_boundary_pressure)\<close>, where \<open>k_overall = k_membrane * k_gap / (k_membrane + k_gap)\<close>,
  \<open>k_membrane = M_water * D_eff / (R * T_membrane * membrane_thickness)\<close> with \<open>D_eff\<close>
  combining the molecular and Knudsen diffusivities at the membrane temperature, and
  \<open>k_gap\<close> is \<open>M_water\<close> times the molecular diffusivity at porosity and tortuosity 1
  and the gap temperature, divided by \<open>R * T_gap * (P_atm + P_vacuum) *
  air_gap_thickness\<close>; the temperatures are the Celsius arguments plus 273.15.
\<close>

theorem MassFlux_refines_spec_with_molar_mass:
  "MassFlux c membrane_porosity membrane_tortuosity membrane_thickness pore_diameter
       gap_spacer_porosity air_gap_thickness temperature_membrane temperature_gap
       feed_membrane_pressure film_boundary_pressure vacuum_pressure
   = spec_mass_flux c
       (water_molar_mass c * spec_k_gap c (temperature_gap + 273.15) vacuum_pressure air_gap_thickness)
       membrane_porosity membrane_tortuosity membrane_thickness pore_diameter
       (temperature_membrane + 273.15) feed_membrane_pressure film_boundary_pressure vacuum_pressure"
proof -
  define T_membrane where "T_membrane = temperature_membrane + 273.15"
  define T_gap where "T_gap = temperature_gap + 273.15"
  define D_mol where "D_mol = MolecularDiffusion membrane_porosity membrane_tortuosity T_membrane"
  define D_kn where
    "D_kn = KnudsenDiffusion c membrane_porosity membrane_tortuosity pore_diameter T_membrane"
  define k_membrane where
    "k_membrane = spec_k_membrane c (spec_D_eff c D_mol D_kn vacuum_pressure) T_membrane membrane_thickness"
  define k_gap where
    "k_gap = water_molar_mass c * spec_k_gap c T_gap vacuum_pressure air_gap_thickness"
  have membrane: "k_membrane
      = water_molar_mass c * (D_mol * D_kn / (D_mol + (atm_pressure c + vacuum_pressure) * D_kn))
          / (gas_constant c * T_membrane * membrane_thickness)"
    by (simp add: k_membrane_def spec_k_membrane_def spec_D_eff_def)
  have gap: "k_gap
      = water_molar_mass c * MolecularDiffusion 1 1 T_gap
          / (gas_constant c * T_gap * (atm_pressure c + vacuum_pressure) * air_gap_thickness)"
    by (simp add: k_gap_def spec_k_gap_def)
  have code: "MassFlux c membrane_porosity membrane_tortuosity membrane_thickness pore_diameter
       gap_spacer_porosity air_gap_thickness temperature_membrane temperature_gap
       feed_membrane_pressure film_boundary_pressure vacuum_pressure
     = k_membrane * k_gap / (k_membrane + k_gap) * (feed_membrane_pressure - film_boundary_pressure)"
    unfolding membrane gap D_mol_def D_kn_def T_membrane_def T_gap_def
    by (rule MassFlux_value)
  have spec: "spec_mass_flux c k_gap membrane_porosity membrane_tortuosity membrane_thickness
       pore_diameter T_membrane feed_membrane_pressure film_boundary_pressure vacuum_pressure
     = k_membrane * k_gap / (k_membrane + k_gap) * (feed_membrane_pressure - film_boundary_pressure)"
    by (simp add: spec_mass_flux_def spec_k_overall_def k_membrane_def D_mol_def D_kn_def Let_def)
  show ?thesis
    using code spec by (simp add: k_gap_def T_membrane_def T_gap_def)
qed

subsection \<open>Concentration polarisation at zero flux\<close>

lemma polarisation_round_trip:
  fixes M N r s :: real
  assumes M: "0 < M" and N: "0 < N" and r: "0 < r" and s: "0 < s" "s < 1"
  shows "1000 * M * N * ((1 / M) * s / ((1 - s) / r + s / N) / 1000)
           / (r * N + M * ((1 / M) * s / ((1 - s) / r + s / N) / 1000) * (N - r))
         = N * s / ((1 - s) * N + s * r + s * (N - r) / 1000)"
proof -
  define D where "D = (1 - s) / r + s / N"
  have D: "0 < D" unfolding D_def using N r s by (simp add: add_pos_pos)
  have rND: "r * N * D = (1 - s) * N + s * r"
    unfolding D_def using N r by (simp add: field_simps)
  have c: "M * ((1 / M) * s / D / 1000) = s / (1000 * D)"
    using M by simp
  have num: "1000 * M * N * ((1 / M) * s / D / 1000) = N * s / D"
    using M by simp
  have "N * s / D / (r * N + s / (1000 * D) * (N - r))
      = N * s / (D * (r * N + s / (1000 * D) * (N - r)))"
    by simp
  also have "D * (r * N + s / (1000 * D) * (N - r)) = r * N * D + s * (N - r) / 1000"
    using D by (simp add: field_simps)
  finally have "N * s / D / (r * N + s / (1000 * D) * (N - r))
      = N * s / ((1 - s) * N + s * r + s * (N - r) / 1000)"
    by (simp only: rND)
  then show ?thesis
    unfolding D_def [symmetric] num c .
qed

text \<open>
  The value at zero flux, in closed form. The last summand of the denominator is
  divided by 1000: the forward conversion divides the molarity by 1000, and the
  conversion back multiplies by 1000 in its numerator only.
\<close>

lemma SaltWaterConcentration_zero_flux:
  assumes "0 < SaltWaterDensity T 0" "0 < s" "s < 1"
  shows "SaltWaterConcentration SaltWaterDensity k T s 0
    = 2160 * s / ((1 - s) * 2160 + s * SaltWaterDensity T 0
                   + s * (2160 - SaltWaterDensity T 0) / 1000)"
proof -
  have "SaltWaterConcentration SaltWaterDensity k T s 0
    = 1000 * (58.44 / 10 ^ 3) * 2160
        * ((1 / (58.44 / 10 ^ 3)) * s / ((1 - s) / SaltWaterDensity T 0 + s / 2160) / 1000)
      / (SaltWaterDensity T 0 * 2160
         + (58.44 / 10 ^ 3)
             * ((1 / (58.44 / 10 ^ 3)) * s / ((1 - s) / SaltWaterDensity T 0 + s / 2160) / 1000)
             * (2160 - SaltWaterDensity T 0))"
    unfolding SaltWaterConcentration_def Let_def by (simp only: exp_zero div_0 mult_1_right)
  also have "\<dots> = 2160 * s / ((1 - s) * 2160 + s * SaltWaterDensity T 0
                   + s * (2160 - SaltWaterDensity T 0) / 1000)"
    by (rule polarisation_round_trip) (use assms in simp_all)
  finally show ?thesis .
qed

text \<open>
  For every water density below that of the salt and every salinity strictly between
  0 and 1, the value returned at zero flux is above the salinity passed in.
\<close>

lemma SaltWaterConcentration_zero_flux_exceeds:
  assumes r: "0 < SaltWaterDensity T 0" "SaltWaterDensity T 0 < 2160" and s: "0 < s" "s < 1"
  shows "s < SaltWaterConcentration SaltWaterDensity k T s 0"
proof -
  define r where "r = SaltWaterDensity T 0"
  have rr: "0 < r" "r < 2160" using assms by (simp_all add: r_def)
  define den where "den = (1 - s) * 2160 + s * r + s * (2160 - r) / 1000"
  have den_eq: "den = 2160 - s * (2160 - r) * (999 / 1000)"
    unfolding den_def by (simp add: field_simps)
  have "s * (2160 - r) < 1 * (2160 - r)"
    using s(2) rr(2) by (intro mult_strict_right_mono) simp_all
  then have bound: "s * (2160 - r) * (999 / 1000) < 2160 - r"
    using rr(2) s(1) by (simp add: field_simps)
  have den_pos: "0 < den" unfolding den_eq using bound rr(1) by simp
  have "0 < s * (2160 - r) * (999 / 1000)" using s(1) rr(2) by simp
  then have den_lt: "den < 2160" unfolding den_eq by simp
  have "s * den < s * 2160" using den_lt s(1) by (rule mult_strict_left_mono)
  then have "s < 2160 * s / den"
    using den_pos by (simp add: field_simps)
  moreover have "SaltWaterConcentration SaltWaterDensity k T s 0 = 2160 * s / den"
    unfolding den_def r_def using r(1) s by (rule SaltWaterConcentration_zero_flux)
  ultimately show ?thesis by simp
qed

text \<open>
  C3 (the claim: with \<open>mass_flux = 0\<close>, \<open>SaltWaterConcentration\<close> returns the input
  salinity unchanged, for positive \<open>mass_transfer_coef\<close> and temperature and a
  salinity in (0,1)). The code at mass transfer coefficient \<open>1e-5\<close>, 25 degrees
  Celsius, salinity 0.035 and zero flux, with a pure-water density of 997: it returns
  \<open>560000 / 15698783\<close>, which is above 0.0356 and so is not the salinity 0.035.
\<close>

theorem SaltWaterConcentration_zero_flux_drift:
  "SaltWaterConcentration (\<lambda>temperature salinity. 997) (1 / 10 ^ 5) 25 0.035 0
     = 560000 / 15698783
   \<and> 0.0356 < SaltWaterConcentration (\<lambda>temperature salinity. 997) (1 / 10 ^ 5) 25 0.035 0
   \<and> SaltWaterConcentration (\<lambda>temperature salinity. 997) (1 / 10 ^ 5) 25 0.035 0 \<noteq> 0.035"
  by (simp add: SaltWaterConcentration_def Let_def)

subsection \<open>What a call leaves behind\<close>

text \<open>
  C7. \<open>MassFlux\<close> takes its two temperatures in Celsius and every diffusivity it
  evaluates is evaluated at the argument plus 273.15; the sum is a value of the call
  and the arguments are passed by value. The three functions that take pointers to
  property snapshots return the memory as they received it: no field of any snapshot
  changes. The other functions take scalars only and reach no memory.
\<close>

theorem calls_leave_memory_unchanged:
  "snd (MembraneConductivity mem pore_air_prop polymer_conductivity membrane_porosity) = mem
   \<and> snd (ChannelHeatTransfCoef mem bulk_water_prop wall_water_prop mass_flow_rate
            channel_height channel_width number_channels spacer_porosity) = mem
   \<and> snd (ChannelMassTransfCoef mem bulk_water_prop wall_water_prop mass_flow_rate
            channel_height channel_width number_channels spacer_porosity) = mem
   \<and> MassFlux c membrane_porosity membrane_tortuosity membrane_thickness pore_diameter
       gap_spacer_porosity air_gap_thickness temperature_membrane temperature_gap
       feed_membrane_pressure film_boundary_pressure vacuum_pressure
     = (let T_membrane = temperature_membrane + 273.15;
            T_gap = temperature_gap + 273.15;
            D_mol = MolecularDiffusion membrane_porosity membrane_tortuosity T_membrane;
            D_kn = KnudsenDiffusion c membrane_porosity membrane_tortuosity pore_diameter T_membrane;
            D_gap = MolecularDiffusion 1 1 T_gap;
            k_m = water_molar_mass c * (D_mol * D_kn / (D_mol + (atm_pressure c + vacuum_pressure) * D_kn))
                    / (gas_constant c * T_membrane * membrane_thickness);
            k_g = water_molar_mass c * D_gap
                    / (gas_constant c * T_gap * (atm_pressure c + vacuum_pressure) * air_gap_thickness)
        in k_m * k_g / (k_m + k_g) * (feed_membrane_pressure - film_boundary_pressure))"
proof (intro conjI)
  show "snd (MembraneConductivity mem pore_air_prop polymer_conductivity membrane_porosity) = mem"
    by (simp add: MembraneConductivity_def Let_def)
  show "snd (ChannelHeatTransfCoef mem bulk_water_prop wall_water_prop mass_flow_rate
            channel_height channel_width number_channels spacer_porosity) = mem"
    by (simp add: ChannelHeatTransfCoef_def Let_def)
  show "snd (ChannelMassTransfCoef mem bulk_water_prop wall_water_prop mass_flow_rate
            channel_height channel_width number_channels spacer_porosity) = mem"
    by (simp add: ChannelMassTransfCoef_def Let_def)
  show "MassFlux c membrane_porosity membrane_tortuosity membrane_thickness pore_diameter
       gap_spacer_porosity air_gap_thickness temperature_membrane temperature_gap
       feed_membrane_pressure film_boundary_pressure vacuum_pressure
     = (let T_membrane = temperature_membrane + 273.15;
            T_gap = temperature_gap + 273.15;
            D_mol = MolecularDiffusion membrane_porosity membrane_tortuosity T_membrane;
            D_kn = KnudsenDiffusion c membrane_porosity membrane_tortuosity pore_diameter T_membrane;
            D_gap = MolecularDiffusion 1 1 T_gap;
            k_m = water_molar_mass c * (D_mol * D_kn / (D_mol + (atm_pressure c + vacuum_pressure) * D_kn))
                    / (gas_constant c * T_membrane * membrane_thickness);
            k_g = water_molar_mass c * D_gap
                    / (gas_constant c * T_gap * (atm_pressure c + vacuum_pressure) * air_gap_thickness)
        in k_m * k_g / (k_m + k_g) * (feed_membrane_pressure - film_boundary_pressure))"
    by (simp add: MassFlux_def Let_def)
qed

end
